theory Spec2Isabelle
  imports Main "HOL-Library.Sublist"
begin

section \<open>The syntax tree\<close>

text \<open>
  The instrumentor of \<^verbatim>\<open>CallInstrumentor\<close> works on the nodes of the TypeScript
  syntax tree. A node is a value of one datatype, one constructor for each node kind the
  class reads or builds; the arguments of a constructor are the arguments of the factory
  function of that kind, in the factory's order, an optional argument being an
  \<open>option\<close>.

  An identifier carries its text and, when it was made by \<^verbatim>\<open>createUniqueName\<close>, the
  number the factory gave it: two generated names are the same name only when the
  numbers agree, whatever their texts.
\<close>

datatype ident = Ident (idText: string) (autoGenerateId: "nat option")

datatype nodeFlags = NodeFlagsNone | NodeFlagsLet | NodeFlagsConst

text \<open>
  A call expression is the only node on which the class sets its marker property, so a
  call expression also carries the identity of its object (an address): two calls with
  the same text at two places of a file are two objects.
\<close>

datatype node =
    Identifier ident
  | ThisKeyword
  | StringLiteral string
  | EqualsGreaterThanToken
  | PropertyAccessExpression node ident
  | CallExpression nat node "node list option" "node list"
  | ParenthesizedExpression node
  | ArrowFunction "node list option" "node list option" "node list" "node option" node node
  | Block "node list" bool
  | ExpressionStatement node
  | VariableDeclaration node "node option" "node option" "node option"
  | VariableDeclarationList "node list" nodeFlags
  | VariableStatement "node list option" node
  | ReturnStatement "node option"
  | ForStatement "node option" "node option" "node option" node
  | ForOfStatement "node option" node node node
  | ForInStatement node node node
  | WhileStatement node node
  | SourceFile string "node list"
  | OtherNode string "node list"

fun isCallExpression :: "node \<Rightarrow> bool" where
  "isCallExpression (CallExpression a e ta args) = True"
| "isCallExpression n = False"

fun isForStatement :: "node \<Rightarrow> bool" where
  "isForStatement (ForStatement i c u b) = True"
| "isForStatement n = False"

fun isForOfStatement :: "node \<Rightarrow> bool" where
  "isForOfStatement (ForOfStatement aw i e b) = True"
| "isForOfStatement n = False"

fun isForInStatement :: "node \<Rightarrow> bool" where
  "isForInStatement (ForInStatement i e b) = True"
| "isForInStatement n = False"

fun isSourceFile :: "node \<Rightarrow> bool" where
  "isSourceFile (SourceFile f ss) = True"
| "isSourceFile n = False"

section \<open>What the class receives from outside\<close>

text \<open>
  \<^verbatim>\<open>getHash\<close> (of \<^verbatim>\<open>../utils\<close>), the statement builders of \<^verbatim>\<open>Creator\<close> (of
  \<^verbatim>\<open>../createNode\<close>) and the source text of a node (\<^verbatim>\<open>node.getText()\<close>, a service of the
  parser) are not part of the class. They are parameters of the model: every theorem
  holds for whatever they compute. The builders get names and identifiers only, never a
  node of the tree. The text of a node is taken as given. A node the
  factory has made is in no source file, and the compiler gives no text for it: a
  theorem speaks for the class where the nodes whose text is read were read from a file.
\<close>

record host =
  getHash :: "string \<Rightarrow> string"
  getText :: "node \<Rightarrow> string"
  createFunctionData :: "string \<Rightarrow> node"
  createIncrementCallCount :: "string \<Rightarrow> node"
  createBeginFunctionLog :: "ident \<Rightarrow> node"
  createEndFunctionLog :: "string \<Rightarrow> ident \<Rightarrow> ident \<Rightarrow> node list"
  createLoopData :: "string \<Rightarrow> node"
  createIncrementIteration :: "string \<Rightarrow> node"
  createInitStmt :: "node list"

section \<open>The state the class and the factory keep\<close>

text \<open>
  \<open>isInstrumented\<close> is the field \<^verbatim>\<open>isInstrumented: Map<string, boolean>\<close>;
  \<open>instrumentedSymbol\<close> holds the addresses of the call nodes whose property
  \<^verbatim>\<open>INSTRUMENTED_SYMBOL\<close> is \<^verbatim>\<open>true\<close>; \<open>nextAutoGenerateId\<close> is the factory's counter of
  generated names and \<open>nextAddress\<close> the address of the next call node the factory
  allocates.
\<close>

record state =
  isInstrumented :: "string \<rightharpoonup> bool"
  instrumentedSymbol :: "nat set"
  nextAutoGenerateId :: nat
  nextAddress :: nat

definition createUniqueName :: "string \<Rightarrow> state \<Rightarrow> ident \<times> state" where
  "createUniqueName t s =
     (Ident t (Some (nextAutoGenerateId s)),
      s\<lparr>nextAutoGenerateId := Suc (nextAutoGenerateId s)\<rparr>)"

definition createCallExpression ::
  "node \<Rightarrow> node list option \<Rightarrow> node list \<Rightarrow> state \<Rightarrow> node \<times> state" where
  "createCallExpression e ta args s =
     (CallExpression (nextAddress s) e ta args, s\<lparr>nextAddress := Suc (nextAddress s)\<rparr>)"

definition createIdentifier :: "string \<Rightarrow> ident" where
  "createIdentifier t = Ident t None"

section \<open>The name of a call\<close>

text \<open>
  \<^verbatim>\<open>getFunctionName\<close> reads \<^verbatim>\<open>node.expression\<close>. It is called on a call expression and,
  through the cast of its recursive call, on a property access; \<open>expression\<close> is that
  property of the two kinds.
\<close>

fun expression :: "node \<Rightarrow> node option" where
  "expression (CallExpression a e ta args) = Some e"
| "expression (PropertyAccessExpression e n) = Some e"
| "expression n = None"

function getFunctionName :: "host \<Rightarrow> node \<Rightarrow> string" where
  "getFunctionName h node =
     (case expression node of
        Some (Identifier i) \<Rightarrow> idText i
      | Some (PropertyAccessExpression e n) \<Rightarrow>
          (if e = ThisKeyword then ''this.'' @ idText n
           else getFunctionName h (PropertyAccessExpression e n) @ ''.'' @ idText n)
      | Some e \<Rightarrow> ''anonymous_'' @ getHash h (getText h node))"
  by pat_completeness auto
termination
proof (relation "measure (\<lambda>(h, node). size node)")
  show "wf (measure (\<lambda>(h, node). size node))"
    by simp
next
  fix h :: host and node x2 e n
  assume "expression node = Some x2" and "x2 = PropertyAccessExpression e n"
  then show "((h, PropertyAccessExpression e n), (h, node)) \<in> measure (\<lambda>(h, node). size node)"
    by (cases node) auto
qed

declare getFunctionName.simps [simp del]

section \<open>The exclusion filter\<close>

definition EXCLUDED_FUNCTIONS :: "string list" where
  "EXCLUDED_FUNCTIONS =
     [''console.log'', ''process.on'', ''performance.now'', ''Math.max'', ''Math.min'']"

text \<open>The loop over the set, in the order of insertion; \<^verbatim>\<open>startsWith\<close> is \<open>prefix\<close>.\<close>

fun notExcluded :: "string list \<Rightarrow> string \<Rightarrow> bool" where
  "notExcluded [] functionName = True"
| "notExcluded (excluded # rest) functionName =
     (if functionName = excluded \<or> prefix (excluded @ ''.'') functionName then False
      else notExcluded rest functionName)"

definition shouldInstrumentCall :: "host \<Rightarrow> node \<Rightarrow> bool" where
  "shouldInstrumentCall h node = notExcluded EXCLUDED_FUNCTIONS (getFunctionName h node)"

section \<open>Wrapping a call\<close>

text \<open>\<^verbatim>\<open>functionName.replace(/\./g, '_')\<close>: every dot becomes an underscore.\<close>

definition replaceDots :: "string \<Rightarrow> string" where
  "replaceDots t = map (\<lambda>c. if c = CHR ''.'' then CHR ''_'' else c) t"

text \<open>
  \<^verbatim>\<open>console.log("[PREF] <what> call <name>")\<close> as an expression statement, as
  \<^verbatim>\<open>_instrumentCall\<close> builds it twice.
\<close>

definition createLog :: "string \<Rightarrow> state \<Rightarrow> node \<times> state" where
  "createLog message s =
     (let (call, s') =
            createCallExpression
              (PropertyAccessExpression (Identifier (createIdentifier ''console''))
                 (createIdentifier ''log''))
              None [StringLiteral message] s
      in (ExpressionStatement call, s'))"

fun instrumentCall :: "host \<Rightarrow> node \<Rightarrow> state \<Rightarrow> node \<times> state" where
  "instrumentCall h (CallExpression a e ta args) s =
     (let node = CallExpression a e ta args;
          functionName = getFunctionName h node
      in if isInstrumented s functionName = Some True \<and> a \<in> instrumentedSymbol s
         then (node, s)
         else
           let s1 = s\<lparr>isInstrumented := (isInstrumented s)(functionName \<mapsto> True)\<rparr>;
               s2 = s1\<lparr>instrumentedSymbol := insert a (instrumentedSymbol s1)\<rparr>;
               functionNameFormatted = replaceDots functionName;
               (beforeLog, s3) = createLog (''[PREF] begin call '' @ functionNameFormatted) s2;
               (afterLog, s4) = createLog (''[PREF] end call '' @ functionNameFormatted) s3;
               (resultVarName, s5) = createUniqueName ''result'' s4;
               varDeclaration = VariableDeclaration (Identifier resultVarName) None None (Some node);
               varDeclList = VariableDeclarationList [varDeclaration] NodeFlagsConst;
               varStmt = VariableStatement None varDeclList;
               returnStmt = ReturnStatement (Some (Identifier resultVarName));
               (startTimeVar, s6) = createUniqueName (''__call_start_'' @ functionNameFormatted) s5;
               (endTimeVar, s7) = createUniqueName (''__call_end_'' @ functionNameFormatted) s6;
               functionData = createFunctionData h functionName;
               incrementCallCount = createIncrementCallCount h functionName;
               beginFunctionLog = createBeginFunctionLog h startTimeVar;
               endFunctionLog = createEndFunctionLog h functionName startTimeVar endTimeVar;
               block = Block ([beforeLog, functionData, incrementCallCount, beginFunctionLog, varStmt]
                              @ endFunctionLog @ [afterLog, returnStmt]) True;
               arrowFunction = ArrowFunction None None [] None EqualsGreaterThanToken block
           in createCallExpression (ParenthesizedExpression arrowFunction) None [] s7)"

section \<open>Wrapping a loop body\<close>

definition getNodeUniqueName :: "host \<Rightarrow> node \<Rightarrow> state \<Rightarrow> string \<times> state" where
  "getNodeUniqueName h node s =
     (if isForStatement node then
        (let (n, s') = createUniqueName (''for_'' @ getHash h (getText h node)) s in (idText n, s'))
      else if isForOfStatement node then
        (let (n, s') = createUniqueName (''forof_'' @ getHash h (getText h node)) s in (idText n, s'))
      else if isForInStatement node then
        (let (n, s') = createUniqueName (''forin_'' @ getHash h (getText h node)) s in (idText n, s'))
      else ([], s))"

fun statement :: "node \<Rightarrow> node" where
  "statement (ForStatement i c u b) = b"
| "statement (ForOfStatement aw i e b) = b"
| "statement (ForInStatement i e b) = b"
| "statement (WhileStatement e b) = b"

definition instrumentLoop :: "host \<Rightarrow> node \<Rightarrow> state \<Rightarrow> node \<times> state" where
  "instrumentLoop h node s =
     (let (t, s1) = getNodeUniqueName h node s;
          (loopName, s2) = createUniqueName t s1;
          loopData = createLoopData h (idText loopName);
          incrementIteration = createIncrementIteration h (idText loopName);
          block = Block [loopData, incrementIteration, statement node] True
      in case node of
           ForStatement initializer condition incrementor b \<Rightarrow>
             (ForStatement initializer condition incrementor block, s2)
         | ForOfStatement awaitModifier initializer e b \<Rightarrow>
             (ForOfStatement awaitModifier initializer e block, s2)
         | ForInStatement initializer e b \<Rightarrow>
             (ForInStatement initializer e block, s2)
         | _ \<Rightarrow> (node, s2))"

section \<open>The entry point\<close>

fun statements :: "node \<Rightarrow> node list" where
  "statements (SourceFile f ss) = ss"

fun updateSourceFile :: "node \<Rightarrow> node list \<Rightarrow> node" where
  "updateSourceFile (SourceFile f ss) ss' = SourceFile f ss'"

text \<open>
  The two \<^verbatim>\<open>if\<close>s after the source-file case run one after the other on the variable
  \<^verbatim>\<open>node\<close>, which the first may have replaced. (The \<^verbatim>\<open>console.log\<close> of
  \<^verbatim>\<open>shouldInstrumentCall\<close> writes the name to the terminal of the tool and touches
  neither the tree nor the fields of the class; it is left out.)
\<close>

definition instrumentFunction :: "host \<Rightarrow> node \<Rightarrow> state \<Rightarrow> node \<times> state" where
  "instrumentFunction h node s =
     (if isSourceFile node then
        (updateSourceFile node (createInitStmt h @ statements node), s)
      else
        let (node1, s1) =
              (if isCallExpression node \<and> shouldInstrumentCall h node
               then instrumentCall h node s else (node, s));
            (node2, s2) =
              (if isForStatement node1 \<or> isForOfStatement node1 \<or> isForInStatement node1
               then instrumentLoop h node1 s1 else (node1, s1))
        in (node2, s2))"

section \<open>Reading a rewritten tree\<close>

text \<open>
  The statements of an immediately invoked arrow function without parameters,
  \<^verbatim>\<open>(() => { ... })()\<close>; \<open>None\<close> for every other node.
\<close>

definition iifeStatements :: "node \<Rightarrow> node list option" where
  "iifeStatements n =
     (case n of
        CallExpression a callee ta args \<Rightarrow>
          (case callee of
             ParenthesizedExpression f \<Rightarrow>
               (case f of
                  ArrowFunction ms tps ps ty tok body \<Rightarrow>
                    (case body of
                       Block stmts multiLine \<Rightarrow>
                         if ta = None \<and> args = [] \<and> ms = None \<and> tps = None \<and> ps = []
                            \<and> ty = None \<and> tok = EqualsGreaterThanToken \<and> multiLine
                         then Some stmts else None
                     | _ \<Rightarrow> None)
                | _ \<Rightarrow> None)
           | _ \<Rightarrow> None)
      | _ \<Rightarrow> None)"

text \<open>The name and the initializer of \<^verbatim>\<open>const <name> = <initializer>;\<close>.\<close>

definition constBinding :: "node \<Rightarrow> (ident \<times> node) option" where
  "constBinding n =
     (case n of
        VariableStatement ms declarationList \<Rightarrow>
          (case declarationList of
             VariableDeclarationList ds fl \<Rightarrow>
               (case ds of
                  [VariableDeclaration nm ex ty init] \<Rightarrow>
                    (case (nm, init) of
                       (Identifier v, Some i) \<Rightarrow>
                         if ms = None \<and> fl = NodeFlagsConst \<and> ex = None \<and> ty = None
                         then Some (v, i) else None
                     | _ \<Rightarrow> None)
                | _ \<Rightarrow> None)
           | _ \<Rightarrow> None)
      | _ \<Rightarrow> None)"

text \<open>
  The call a replacement evaluates: the initializer of the constant declared by the fifth
  statement of an immediately invoked arrow function.
\<close>

definition wrappedCall :: "node \<Rightarrow> node option" where
  "wrappedCall n =
     (case iifeStatements n of
        None \<Rightarrow> None
      | Some stmts \<Rightarrow>
          if 4 < length stmts then map_option snd (constBinding (stmts ! 4)) else None)"

text \<open>The nodes directly below a node, from left to right.\<close>

fun optional :: "'a option \<Rightarrow> 'a list" where
  "optional None = []"
| "optional (Some x) = [x]"

fun optionalList :: "'a list option \<Rightarrow> 'a list" where
  "optionalList None = []"
| "optionalList (Some xs) = xs"

fun children :: "node \<Rightarrow> node list" where
  "children (Identifier i) = []"
| "children ThisKeyword = []"
| "children (StringLiteral t) = []"
| "children EqualsGreaterThanToken = []"
| "children (PropertyAccessExpression e n) = [e]"
| "children (CallExpression a e ta args) = e # optionalList ta @ args"
| "children (ParenthesizedExpression e) = [e]"
| "children (ArrowFunction ms tps ps ty tok b) =
     optionalList ms @ optionalList tps @ ps @ optional ty @ [tok, b]"
| "children (Block ss ml) = ss"
| "children (ExpressionStatement e) = [e]"
| "children (VariableDeclaration n ex ty init) = n # optional ex @ optional ty @ optional init"
| "children (VariableDeclarationList ds fl) = ds"
| "children (VariableStatement ms dl) = optionalList ms @ [dl]"
| "children (ReturnStatement e) = optional e"
| "children (ForStatement i c u b) = optional i @ optional c @ optional u @ [b]"
| "children (ForOfStatement aw i e b) = optional aw @ [i, e, b]"
| "children (ForInStatement i e b) = [i, e, b]"
| "children (WhileStatement e b) = [e, b]"
| "children (SourceFile f ss) = ss"
| "children (OtherNode k ns) = ns"

text \<open>How often the node \<open>m\<close> occurs in the tree \<open>n\<close>.\<close>

function occurrences :: "node \<Rightarrow> node \<Rightarrow> nat" where
  "occurrences m n = (if n = m then 1 else 0) + sum_list (map (occurrences m) (children n))"
  by pat_completeness auto
termination
proof (relation "measure (\<lambda>(m, n). size n)")
  show "wf (measure (\<lambda>(m, n). size n))"
    by simp
next
  fix m n c :: node
  assume c: "c \<in> set (children n)"
  have opt: "\<And>x. c \<in> set (optional x) \<Longrightarrow> size c \<le> size_option size x"
    by (case_tac x) auto
  have lst: "\<And>xs. c \<in> set xs \<Longrightarrow> size c \<le> size_list size xs"
    by (simp add: size_list_estimation')
  have optl: "\<And>x. c \<in> set (optionalList x) \<Longrightarrow> size c \<le> size_option (size_list size) x"
    by (case_tac x) (auto dest: lst)
  from c have "size c < size n"
    by (cases n) (auto dest!: opt optl, auto dest!: lst)
  then show "((m, c), (m, n)) \<in> measure (\<lambda>(m, n). size n)"
    by simp
qed

declare occurrences.simps [simp del]

text \<open>A property access chain \<^verbatim>\<open>base.m1.m2...\<close>, the members from the inside out.\<close>

definition memberChain :: "node \<Rightarrow> ident list \<Rightarrow> node" where
  "memberChain base ms = foldl PropertyAccessExpression base ms"

fun isIdentifier :: "node \<Rightarrow> bool" where
  "isIdentifier (Identifier i) = True"
| "isIdentifier n = False"

fun isPropertyAccessExpression :: "node \<Rightarrow> bool" where
  "isPropertyAccessExpression (PropertyAccessExpression e n) = True"
| "isPropertyAccessExpression n = False"

text \<open>
  A traversal hands the entry point one node after the other; \<open>visitAll\<close> is the state
  after the nodes of a list have been handed over in order.
\<close>

definition visitAll :: "host \<Rightarrow> node list \<Rightarrow> state \<Rightarrow> state" where
  "visitAll h ns s = fold (\<lambda>n s'. snd (instrumentFunction h n s')) ns s"

section \<open>Running a block\<close>

text \<open>
  The statements of a block run in order, each in the state the one before it left, up
  to and including the first that does not complete normally (a \<^verbatim>\<open>continue\<close>, a
  \<^verbatim>\<open>break\<close>, a \<^verbatim>\<open>return\<close>, a \<^verbatim>\<open>throw\<close>). How a single statement runs is not fixed
  here: it is the parameter \<open>exec\<close>. \<open>executed\<close> lists the statements that run. One
  iteration of a loop runs the statement of the loop once.
\<close>

datatype completion = Normal | Abrupt

fun executed :: "(node \<Rightarrow> 'st \<Rightarrow> completion \<times> 'st) \<Rightarrow> node list \<Rightarrow> 'st \<Rightarrow> node list" where
  "executed exec [] st = []"
| "executed exec (x # xs) st =
     (case exec x st of
        (Normal, st') \<Rightarrow> x # executed exec xs st'
      | (Abrupt, st') \<Rightarrow> [x])"


section \<open>A host and a state to run the functions on\<close>

text \<open>
  A small host: the text of an expression is printed from its tree, the hash of a text
  is the text behind a \<^verbatim>\<open>#\<close>, and each builder makes one statement that names its
  arguments.
\<close>

fun printText :: "node \<Rightarrow> string" where
  "printText (Identifier i) = idText i"
| "printText ThisKeyword = ''this''"
| "printText (StringLiteral t) = t"
| "printText (PropertyAccessExpression e n) = printText e @ ''.'' @ idText n"
| "printText (CallExpression a e ta args) = printText e @ ''('' @ concat (map printText args) @ '')''"
| "printText (ParenthesizedExpression e) = ''('' @ printText e @ '')''"
| "printText n = ''...''"

definition exampleHost :: host where
  "exampleHost =
     \<lparr>getHash = (\<lambda>t. ''#'' @ t),
      getText = printText,
      createFunctionData = (\<lambda>n. OtherNode ''functionData'' [StringLiteral n]),
      createIncrementCallCount = (\<lambda>n. OtherNode ''incrementCallCount'' [StringLiteral n]),
      createBeginFunctionLog = (\<lambda>v. OtherNode ''beginFunctionLog'' [Identifier v]),
      createEndFunctionLog =
        (\<lambda>n v w. [OtherNode ''endFunctionLog'' [StringLiteral n, Identifier v, Identifier w]]),
      createLoopData = (\<lambda>n. OtherNode ''loopData'' [StringLiteral n]),
      createIncrementIteration = (\<lambda>n. OtherNode ''incrementIteration'' [StringLiteral n]),
      createInitStmt = [OtherNode ''init'' []]\<rparr>"

definition initialState :: state where
  "initialState =
     \<lparr>isInstrumented = Map.empty, instrumentedSymbol = {}, nextAutoGenerateId = 0,
      nextAddress = 100\<rparr>"




section \<open>Properties\<close>

lemma exampleHost_simps [simp]:
  "getHash exampleHost t = ''#'' @ t"
  "getText exampleHost = printText"
  "createFunctionData exampleHost n = OtherNode ''functionData'' [StringLiteral n]"
  "createIncrementCallCount exampleHost n = OtherNode ''incrementCallCount'' [StringLiteral n]"
  "createBeginFunctionLog exampleHost v = OtherNode ''beginFunctionLog'' [Identifier v]"
  "createEndFunctionLog exampleHost n v w =
     [OtherNode ''endFunctionLog'' [StringLiteral n, Identifier v, Identifier w]]"
  "createLoopData exampleHost n = OtherNode ''loopData'' [StringLiteral n]"
  "createIncrementIteration exampleHost n = OtherNode ''incrementIteration'' [StringLiteral n]"
  "createInitStmt exampleHost = [OtherNode ''init'' []]"
  by (simp_all add: exampleHost_def)

lemma initialState_simps [simp]:
  "isInstrumented initialState = Map.empty"
  "instrumentedSymbol initialState = {}"
  "nextAutoGenerateId initialState = 0"
  "nextAddress initialState = 100"
  by (simp_all add: initialState_def)

lemma expression_PropertyAccess:
  "expression x = Some (PropertyAccessExpression E m) \<Longrightarrow> E \<noteq> ThisKeyword \<Longrightarrow>
   getFunctionName h x = getFunctionName h (PropertyAccessExpression E m) @ ''.'' @ idText m"
  by (subst getFunctionName.simps) simp

lemma expression_this:
  "expression x = Some (PropertyAccessExpression ThisKeyword m) \<Longrightarrow>
   getFunctionName h x = ''this.'' @ idText m"
  by (subst getFunctionName.simps) simp

lemma expression_Identifier:
  "expression x = Some (Identifier i) \<Longrightarrow> getFunctionName h x = idText i"
  by (subst getFunctionName.simps) simp

lemma expression_other:
  "expression x = Some e \<Longrightarrow> \<not> isIdentifier e \<Longrightarrow> \<not> isPropertyAccessExpression e \<Longrightarrow>
   getFunctionName h x = ''anonymous_'' @ getHash h (getText h x)"
  by (subst getFunctionName.simps) (cases e; simp)

text \<open>
  Claim C3. The name of a call follows the shape of its callee: the text of a bare
  identifier; \<^verbatim>\<open>this.\<close> and the member name for a property access on \<^verbatim>\<open>this\<close>; for a
  property access \<^verbatim>\<open>E.m\<close> on any other receiver, the name the function returns when it is
  called again on the access (its recursive call, which resolves \<open>E\<close>), then a dot and
  the member name; for every other callee, \<^verbatim>\<open>anonymous_\<close> and the hash of the text of
  the node. Two nodes of that last sort with the same text have the same name. The same
  holds when the node is the property access the recursive call is made on.
\<close>

theorem getFunctionName_by_callee_shape:
  assumes "node = CallExpression a callee ta args \<or> node = PropertyAccessExpression callee m'"
    and "node' = CallExpression a' callee' ta' args' \<or> node' = PropertyAccessExpression callee' m''"
  shows
    "(callee = Identifier i \<longrightarrow> getFunctionName h node = idText i)
     \<and> (callee = PropertyAccessExpression ThisKeyword m \<longrightarrow>
          getFunctionName h node = ''this.'' @ idText m)
     \<and> (callee = PropertyAccessExpression E m \<and> E \<noteq> ThisKeyword \<longrightarrow>
          getFunctionName h node = getFunctionName h callee @ ''.'' @ idText m)
     \<and> (\<not> isIdentifier callee \<and> \<not> isPropertyAccessExpression callee \<longrightarrow>
          getFunctionName h node = ''anonymous_'' @ getHash h (getText h node))
     \<and> (\<not> isIdentifier callee \<and> \<not> isPropertyAccessExpression callee
        \<and> \<not> isIdentifier callee' \<and> \<not> isPropertyAccessExpression callee'
        \<and> getText h node = getText h node' \<longrightarrow>
          getFunctionName h node = getFunctionName h node')"
proof -
  have callee: "expression node = Some callee"
    using assms(1) by auto
  have callee': "expression node' = Some callee'"
    using assms(2) by auto
  show ?thesis
    using callee callee'
    by (simp add: expression_PropertyAccess expression_this expression_Identifier
        expression_other)
qed

theorem getFunctionName_by_callee_shape_witness:
  "getFunctionName exampleHost
      (CallExpression 1 (Identifier (Ident ''add'' None)) None [StringLiteral ''1'']) = ''add''
   \<and> getFunctionName exampleHost
      (CallExpression 2 (PropertyAccessExpression ThisKeyword (Ident ''run'' None)) None [])
       = ''this.run''
   \<and> getFunctionName exampleHost
      (CallExpression 3
         (PropertyAccessExpression
            (PropertyAccessExpression (Identifier (Ident ''a'' None)) (Ident ''b'' None))
            (Ident ''c'' None))
         None []) = ''a.b.c''
   \<and> getFunctionName exampleHost
      (CallExpression 4 (ParenthesizedExpression (Identifier (Ident ''f'' None))) None [])
       = ''anonymous_#(f)()''
   \<and> getFunctionName exampleHost
      (CallExpression 4 (ParenthesizedExpression (Identifier (Ident ''f'' None))) None [])
       = getFunctionName exampleHost
           (CallExpression 5 (ParenthesizedExpression (Identifier (Ident ''f'' None))) None [])"
  using
    getFunctionName_by_callee_shape
      [of "CallExpression 1 (Identifier (Ident ''add'' None)) None [StringLiteral ''1'']"
          1 "Identifier (Ident ''add'' None)" None "[StringLiteral ''1'']" "Ident ''m'' None"
          "CallExpression 1 (Identifier (Ident ''add'' None)) None [StringLiteral ''1'']"
          1 "Identifier (Ident ''add'' None)" None "[StringLiteral ''1'']" "Ident ''m'' None"
          "Ident ''add'' None" exampleHost "Ident ''m'' None" ThisKeyword]
    getFunctionName_by_callee_shape
      [of "CallExpression 2 (PropertyAccessExpression ThisKeyword (Ident ''run'' None)) None []"
          2 "PropertyAccessExpression ThisKeyword (Ident ''run'' None)" None "[]"
          "Ident ''m'' None"
          "CallExpression 2 (PropertyAccessExpression ThisKeyword (Ident ''run'' None)) None []"
          2 "PropertyAccessExpression ThisKeyword (Ident ''run'' None)" None "[]"
          "Ident ''m'' None"
          "Ident ''run'' None" exampleHost "Ident ''run'' None" ThisKeyword]
    getFunctionName_by_callee_shape
      [of "CallExpression 3
             (PropertyAccessExpression
                (PropertyAccessExpression (Identifier (Ident ''a'' None)) (Ident ''b'' None))
                (Ident ''c'' None))
             None []"
          3 "PropertyAccessExpression
               (PropertyAccessExpression (Identifier (Ident ''a'' None)) (Ident ''b'' None))
               (Ident ''c'' None)" None "[]" "Ident ''m'' None"
          "CallExpression 3
             (PropertyAccessExpression
                (PropertyAccessExpression (Identifier (Ident ''a'' None)) (Ident ''b'' None))
                (Ident ''c'' None))
             None []"
          3 "PropertyAccessExpression
               (PropertyAccessExpression (Identifier (Ident ''a'' None)) (Ident ''b'' None))
               (Ident ''c'' None)" None "[]" "Ident ''m'' None"
          "Ident ''a'' None" exampleHost "Ident ''c'' None"
          "PropertyAccessExpression (Identifier (Ident ''a'' None)) (Ident ''b'' None)"]
    getFunctionName_by_callee_shape
      [of "PropertyAccessExpression
             (PropertyAccessExpression (Identifier (Ident ''a'' None)) (Ident ''b'' None))
             (Ident ''c'' None)"
          3 "PropertyAccessExpression (Identifier (Ident ''a'' None)) (Ident ''b'' None)" None "[]"
          "Ident ''c'' None"
          "PropertyAccessExpression
             (PropertyAccessExpression (Identifier (Ident ''a'' None)) (Ident ''b'' None))
             (Ident ''c'' None)"
          3 "PropertyAccessExpression (Identifier (Ident ''a'' None)) (Ident ''b'' None)" None "[]"
          "Ident ''c'' None"
          "Ident ''a'' None" exampleHost "Ident ''b'' None" "Identifier (Ident ''a'' None)"]
    getFunctionName_by_callee_shape
      [of "PropertyAccessExpression (Identifier (Ident ''a'' None)) (Ident ''b'' None)"
          3 "Identifier (Ident ''a'' None)" None "[]" "Ident ''b'' None"
          "PropertyAccessExpression (Identifier (Ident ''a'' None)) (Ident ''b'' None)"
          3 "Identifier (Ident ''a'' None)" None "[]" "Ident ''b'' None"
          "Ident ''a'' None" exampleHost "Ident ''b'' None" ThisKeyword]
    getFunctionName_by_callee_shape
      [of "CallExpression 4 (ParenthesizedExpression (Identifier (Ident ''f'' None))) None []"
          4 "ParenthesizedExpression (Identifier (Ident ''f'' None))" None "[]" "Ident ''m'' None"
          "CallExpression 5 (ParenthesizedExpression (Identifier (Ident ''f'' None))) None []"
          5 "ParenthesizedExpression (Identifier (Ident ''f'' None))" None "[]" "Ident ''m'' None"
          "Ident ''f'' None" exampleHost "Ident ''m'' None" ThisKeyword]
  by auto

lemma notExcluded_iff:
  "notExcluded es name = (\<not> (\<exists>e \<in> set es. name = e \<or> prefix (e @ ''.'') name))"
  by (induction es) auto



lemma instrumentCall_skip:
  "isInstrumented s (getFunctionName h (CallExpression a e ta args)) = Some True \<Longrightarrow>
   a \<in> instrumentedSymbol s \<Longrightarrow>
   instrumentCall h (CallExpression a e ta args) s = (CallExpression a e ta args, s)"
  by (simp add: Let_def)

lemma instrumentCall_wrap:
  assumes "\<not> (isInstrumented s (getFunctionName h (CallExpression a e ta args)) = Some True
              \<and> a \<in> instrumentedSymbol s)"
  shows "instrumentCall h (CallExpression a e ta args) s =
    (let node = CallExpression a e ta args;
         name = getFunctionName h node;
         g = nextAutoGenerateId s;
         resultVarName = Ident ''result'' (Some g);
         startTimeVar = Ident (''__call_start_'' @ replaceDots name) (Some (Suc g));
         endTimeVar = Ident (''__call_end_'' @ replaceDots name) (Some (Suc (Suc g)));
         consoleLog = PropertyAccessExpression (Identifier (Ident ''console'' None)) (Ident ''log'' None)
     in (CallExpression (Suc (Suc (nextAddress s)))
          (ParenthesizedExpression
            (ArrowFunction None None [] None EqualsGreaterThanToken
              (Block
                ([ExpressionStatement
                    (CallExpression (nextAddress s) consoleLog None
                       [StringLiteral (''[PREF] begin call '' @ replaceDots name)]),
                  createFunctionData h name,
                  createIncrementCallCount h name,
                  createBeginFunctionLog h startTimeVar,
                  VariableStatement None
                    (VariableDeclarationList
                       [VariableDeclaration (Identifier resultVarName) None None (Some node)]
                       NodeFlagsConst)]
                 @ createEndFunctionLog h name startTimeVar endTimeVar
                 @ [ExpressionStatement
                      (CallExpression (Suc (nextAddress s)) consoleLog None
                         [StringLiteral (''[PREF] end call '' @ replaceDots name)]),
                    ReturnStatement (Some (Identifier resultVarName))])
                True)))
          None [],
        s\<lparr>isInstrumented := (isInstrumented s)(name \<mapsto> True),
          instrumentedSymbol := insert a (instrumentedSymbol s),
          nextAutoGenerateId := Suc (Suc (Suc g)),
          nextAddress := Suc (Suc (Suc (nextAddress s)))\<rparr>))"
  using assms
  by (cases "a \<in> instrumentedSymbol s")
     (simp_all add: Let_def createLog_def createCallExpression_def createUniqueName_def
        createIdentifier_def)

declare instrumentCall.simps [simp del]

lemma instrumentCall_not_loop:
  "\<not> isForStatement (fst (instrumentCall h (CallExpression a e ta args) s))
   \<and> \<not> isForOfStatement (fst (instrumentCall h (CallExpression a e ta args) s))
   \<and> \<not> isForInStatement (fst (instrumentCall h (CallExpression a e ta args) s))"
proof (cases "isInstrumented s (getFunctionName h (CallExpression a e ta args)) = Some True
              \<and> a \<in> instrumentedSymbol s")
  case True
  then show ?thesis by (simp add: instrumentCall_skip)
next
  case False
  then show ?thesis by (simp add: instrumentCall_wrap Let_def)
qed

lemma instrumentFunction_call:
  "shouldInstrumentCall h (CallExpression a e ta args) \<Longrightarrow>
   instrumentFunction h (CallExpression a e ta args) s
     = instrumentCall h (CallExpression a e ta args) s"
  using instrumentCall_not_loop [of h a e ta args s]
  by (simp add: instrumentFunction_def split_def)

lemma instrumentFunction_excluded:
  "\<not> shouldInstrumentCall h (CallExpression a e ta args) \<Longrightarrow>
   instrumentFunction h (CallExpression a e ta args) s = (CallExpression a e ta args, s)"
  by (simp add: instrumentFunction_def)

text \<open>
  Claim C6. On a source file the entry point returns the file with the initialization
  statements of the host in front of the statements the file had, which follow unchanged
  and in their order, whatever they are; the state is not touched.
\<close>

theorem instrumentFunction_sourceFile:
  "instrumentFunction h (SourceFile f ss) s = (SourceFile f (createInitStmt h @ ss), s)"
  by (simp add: instrumentFunction_def)

theorem instrumentFunction_sourceFile_witness:
  "instrumentFunction exampleHost
     (SourceFile ''a.ts''
        [ExpressionStatement (CallExpression 1 (Identifier (Ident ''add'' None)) None []),
         WhileStatement (Identifier (Ident ''b'' None)) (Block [] True)])
     initialState
   = (SourceFile ''a.ts''
        [OtherNode ''init'' [],
         ExpressionStatement (CallExpression 1 (Identifier (Ident ''add'' None)) None []),
         WhileStatement (Identifier (Ident ''b'' None)) (Block [] True)],
      initialState)"
  using instrumentFunction_sourceFile
    [of exampleHost "''a.ts''"
        "[ExpressionStatement (CallExpression 1 (Identifier (Ident ''add'' None)) None []),
          WhileStatement (Identifier (Ident ''b'' None)) (Block [] True)]"
        initialState]
  by simp

text \<open>
  Claim C8. A node that is no source file, no call the filter accepts and none of the
  three \<^verbatim>\<open>for\<close> loops comes back from the entry point as it went in, and the state with
  it: a \<^verbatim>\<open>while\<close> loop, for one, is not rewritten.
\<close>

theorem instrumentFunction_passes_through:
  assumes "\<not> isSourceFile node"
    and "\<not> (isCallExpression node \<and> shouldInstrumentCall h node)"
    and "\<not> (isForStatement node \<or> isForOfStatement node \<or> isForInStatement node)"
  shows "instrumentFunction h node s = (node, s)"
  using assms by (auto simp add: instrumentFunction_def)

theorem instrumentFunction_passes_through_witness:
  "instrumentFunction exampleHost
      (WhileStatement (Identifier (Ident ''b'' None)) (Block [] True)) initialState
     = (WhileStatement (Identifier (Ident ''b'' None)) (Block [] True), initialState)
   \<and> instrumentFunction exampleHost
      (CallExpression 3
         (PropertyAccessExpression (Identifier (Ident ''Math'' None)) (Ident ''max'' None))
         None [StringLiteral ''1'']) initialState
     = (CallExpression 3
         (PropertyAccessExpression (Identifier (Ident ''Math'' None)) (Ident ''max'' None))
         None [StringLiteral ''1''], initialState)"
  using
    instrumentFunction_passes_through
      [of "WhileStatement (Identifier (Ident ''b'' None)) (Block [] True)" exampleHost initialState]
    instrumentFunction_passes_through
      [of "CallExpression 3
         (PropertyAccessExpression (Identifier (Ident ''Math'' None)) (Ident ''max'' None))
         None [StringLiteral ''1'']" exampleHost initialState]
  by (simp add: shouldInstrumentCall_def EXCLUDED_FUNCTIONS_def expression_PropertyAccess
      expression_Identifier)

lemma instrumentLoop_For:
  "instrumentLoop h (ForStatement i c u b) s =
     (ForStatement i c u
        (Block [createLoopData h (''for_'' @ getHash h (getText h (ForStatement i c u b))),
                createIncrementIteration h
                  (''for_'' @ getHash h (getText h (ForStatement i c u b))),
                b] True),
      s\<lparr>nextAutoGenerateId := Suc (Suc (nextAutoGenerateId s))\<rparr>)"
  by (simp add: instrumentLoop_def getNodeUniqueName_def createUniqueName_def)

lemma instrumentLoop_ForOf:
  "instrumentLoop h (ForOfStatement aw i e b) s =
     (ForOfStatement aw i e
        (Block [createLoopData h (''forof_'' @ getHash h (getText h (ForOfStatement aw i e b))),
                createIncrementIteration h
                  (''forof_'' @ getHash h (getText h (ForOfStatement aw i e b))),
                b] True),
      s\<lparr>nextAutoGenerateId := Suc (Suc (nextAutoGenerateId s))\<rparr>)"
  by (simp add: instrumentLoop_def getNodeUniqueName_def createUniqueName_def)

lemma instrumentLoop_ForIn:
  "instrumentLoop h (ForInStatement i e b) s =
     (ForInStatement i e
        (Block [createLoopData h (''forin_'' @ getHash h (getText h (ForInStatement i e b))),
                createIncrementIteration h
                  (''forin_'' @ getHash h (getText h (ForInStatement i e b))),
                b] True),
      s\<lparr>nextAutoGenerateId := Suc (Suc (nextAutoGenerateId s))\<rparr>)"
  by (simp add: instrumentLoop_def getNodeUniqueName_def createUniqueName_def)

lemma executed_single: "executed exec [x] st = [x]"
  by (simp split: prod.splits completion.splits)





lemma instrumentFunction_loop:
  "isForStatement x \<or> isForOfStatement x \<or> isForInStatement x \<Longrightarrow>
   instrumentFunction h x s = instrumentLoop h x s"
  by (cases x) (simp_all add: instrumentFunction_def)

text \<open>
  Claim C7. Nothing keeps \<^verbatim>\<open>_instrumentLoop\<close> from wrapping a loop that is wrapped
  already. Given a loop whose body is a block of two statements and a body, as the
  wrapping block is when the output of an earlier run is read from its file, it returns
  the loop with the same header and a new block around that block, in any state and for
  each of the three kinds of loop; and the entry point hands such a loop to it like any
  other loop.
\<close>

theorem instrumentLoop_wraps_again:
  "(let wrapped = Block [x, y, b] True;
        loop = ForStatement i c u wrapped;
        name = ''for_'' @ getHash h (getText h loop)
    in fst (instrumentLoop h loop s) =
         ForStatement i c u
           (Block [createLoopData h name, createIncrementIteration h name,
                   Block [x, y, b] True]
              True)
       \<and> fst (instrumentLoop h loop s) \<noteq> loop
       \<and> instrumentFunction h loop s = instrumentLoop h loop s)
   \<and> (let wrapped = Block [x, y, b] True;
        loop = ForOfStatement aw ini e wrapped;
        name = ''forof_'' @ getHash h (getText h loop)
    in fst (instrumentLoop h loop s) =
         ForOfStatement aw ini e
           (Block [createLoopData h name, createIncrementIteration h name,
                   Block [x, y, b] True]
              True)
       \<and> fst (instrumentLoop h loop s) \<noteq> loop
       \<and> instrumentFunction h loop s = instrumentLoop h loop s)
   \<and> (let wrapped = Block [x, y, b] True;
        loop = ForInStatement ini e wrapped;
        name = ''forin_'' @ getHash h (getText h loop)
    in fst (instrumentLoop h loop s) =
         ForInStatement ini e
           (Block [createLoopData h name, createIncrementIteration h name,
                   Block [x, y, b] True]
              True)
       \<and> fst (instrumentLoop h loop s) \<noteq> loop
       \<and> instrumentFunction h loop s = instrumentLoop h loop s)"
proof -
  have "Block [p, q, w] True \<noteq> w" for p q w :: node
  proof
    assume "Block [p, q, w] True = w"
    then have "size (Block [p, q, w] True) = size w"
      by (rule arg_cong)
    then show False
      by simp
  qed
  then show ?thesis
    by (simp add: instrumentLoop_For instrumentLoop_ForOf instrumentLoop_ForIn Let_def
        instrumentFunction_loop)
qed

theorem instrumentLoop_wraps_again_witness:
  "fst (instrumentLoop exampleHost
      (ForStatement None (Some (Identifier (Ident ''c'' None))) None
         (Block [OtherNode ''loopData'' [StringLiteral ''for_#...''],
                 OtherNode ''incrementIteration'' [StringLiteral ''for_#...''],
                 ExpressionStatement (Identifier (Ident ''x'' None))] True))
      initialState)
   = ForStatement None (Some (Identifier (Ident ''c'' None))) None
       (Block [OtherNode ''loopData'' [StringLiteral ''for_#...''],
               OtherNode ''incrementIteration'' [StringLiteral ''for_#...''],
               Block [OtherNode ''loopData'' [StringLiteral ''for_#...''],
                      OtherNode ''incrementIteration'' [StringLiteral ''for_#...''],
                      ExpressionStatement (Identifier (Ident ''x'' None))] True] True)"
  using instrumentLoop_wraps_again
    [of "OtherNode ''loopData'' [StringLiteral ''for_#...'']"
        "OtherNode ''incrementIteration'' [StringLiteral ''for_#...'']"
        "ExpressionStatement (Identifier (Ident ''x'' None))"
        None "Some (Identifier (Ident ''c'' None))" None exampleHost initialState
        None "Identifier (Ident ''v'' None)" "Identifier (Ident ''xs'' None)"]
  by (simp add: Let_def)

lemma memberChain_snoc:
  "memberChain base (ms @ [m]) = PropertyAccessExpression (memberChain base ms) m"
  by (simp add: memberChain_def)

lemma memberChain_Cons:
  "memberChain base (m # ms) = memberChain (PropertyAccessExpression base m) ms"
  by (simp add: memberChain_def)

text \<open>
  The name of a node whose callee is a chain of members over a property access
  \<^verbatim>\<open>E.m\<close>, \<open>E\<close> not \<^verbatim>\<open>this\<close>: the recursion ends on \<^verbatim>\<open>E.m\<close> and every member of the chain
  is appended on the way back.
\<close>

lemma getFunctionName_chain:
  assumes "E \<noteq> ThisKeyword"
  shows "expression x = Some (memberChain (PropertyAccessExpression E m) ms) \<Longrightarrow>
     getFunctionName h x
       = getFunctionName h (PropertyAccessExpression E m)
         @ concat (map (\<lambda>n. ''.'' @ idText n) (m # ms))"
proof (induction ms arbitrary: x rule: rev_induct)
  case Nil
  then show ?case
    using assms by (simp add: memberChain_def expression_PropertyAccess)
next
  case (snoc n ms)
  let ?inner = "memberChain (PropertyAccessExpression E m) ms"
  have inner_not_this: "?inner \<noteq> ThisKeyword"
    by (cases ms rule: rev_cases) (simp_all add: memberChain_def)
  have "expression x = Some (PropertyAccessExpression ?inner n)"
    using snoc.prems by (simp add: memberChain_snoc)
  then have "getFunctionName h x
      = getFunctionName h (PropertyAccessExpression ?inner n) @ ''.'' @ idText n"
    using inner_not_this by (rule expression_PropertyAccess)
  moreover have "getFunctionName h (PropertyAccessExpression ?inner n)
      = getFunctionName h (PropertyAccessExpression E m)
         @ concat (map (\<lambda>n. ''.'' @ idText n) (m # ms))"
    by (rule snoc.IH) simp
  ultimately show ?case by simp
qed

text \<open>
  Claim C10, as amended. When the callee is a chain \<^verbatim>\<open>base.m.m1...mk\<close> over a base that is
  neither an identifier, nor \<^verbatim>\<open>this\<close>, nor a property access, the name is \<^verbatim>\<open>anonymous_\<close>,
  the hash of the text of the innermost property access \<^verbatim>\<open>base.m\<close>, and the member names
  \<^verbatim>\<open>m\<close>, \<^verbatim>\<open>m1\<close>, ..., \<^verbatim>\<open>mk\<close>, each behind a dot. The innermost property access is the node
  on which the recursion ends: the hashed text is neither the text of the base alone nor
  the text of the call. For \<^verbatim>\<open>f().m(x)\<close> the text \<^verbatim>\<open>f().m\<close> is hashed.
\<close>

theorem getFunctionName_anonymous_chain:
  assumes "\<not> isIdentifier base" and "base \<noteq> ThisKeyword"
    and "\<not> isPropertyAccessExpression base"
  shows "getFunctionName h (CallExpression a (memberChain base (m # ms)) ta args)
     = ''anonymous_'' @ getHash h (getText h (PropertyAccessExpression base m))
       @ concat (map (\<lambda>n. ''.'' @ idText n) (m # ms))"
proof -
  have "getFunctionName h (PropertyAccessExpression base m)
      = ''anonymous_'' @ getHash h (getText h (PropertyAccessExpression base m))"
    using assms by (simp add: expression_other)
  moreover have "getFunctionName h (CallExpression a (memberChain base (m # ms)) ta args)
      = getFunctionName h (PropertyAccessExpression base m)
         @ concat (map (\<lambda>n. ''.'' @ idText n) (m # ms))"
    using assms(2) by (rule getFunctionName_chain) (simp add: memberChain_Cons)
  ultimately show ?thesis by simp
qed

theorem getFunctionName_anonymous_chain_witness:
  "getFunctionName exampleHost
     (CallExpression 1
        (PropertyAccessExpression (CallExpression 2 (Identifier (Ident ''f'' None)) None [])
           (Ident ''m'' None))
        None [StringLiteral ''x''])
   = ''anonymous_#f().m.m''
   \<and> getText exampleHost
     (CallExpression 1
        (PropertyAccessExpression (CallExpression 2 (Identifier (Ident ''f'' None)) None [])
           (Ident ''m'' None))
        None [StringLiteral ''x'']) = ''f().m(x)''"
  using getFunctionName_anonymous_chain
    [of "CallExpression 2 (Identifier (Ident ''f'' None)) None []" exampleHost 1
        "Ident ''m'' None" "[]" None "[StringLiteral ''x'']"]
  by (simp add: memberChain_def)

text \<open>
  The name of \<^verbatim>\<open>f().m(x)\<close> is not \<^verbatim>\<open>anonymous_\<close>, the hash of the text of the base
  \<^verbatim>\<open>f()\<close>, and \<^verbatim>\<open>.m\<close>.
\<close>

theorem getFunctionName_hashes_base_counterexample:
  "getFunctionName exampleHost
     (CallExpression 1
        (PropertyAccessExpression (CallExpression 2 (Identifier (Ident ''f'' None)) None [])
           (Ident ''m'' None))
        None [StringLiteral ''x''])
   \<noteq> ''anonymous_''
       @ getHash exampleHost
           (getText exampleHost (CallExpression 2 (Identifier (Ident ''f'' None)) None []))
       @ ''.m''"
  by (simp add: expression_PropertyAccess expression_other)


lemma children_size: "c \<in> set (children n) \<Longrightarrow> size c < size n"
proof -
  assume c: "c \<in> set (children n)"
  have opt: "\<And>x. c \<in> set (optional x) \<Longrightarrow> size c \<le> size_option size x"
    by (case_tac x) auto
  have lst: "\<And>xs. c \<in> set xs \<Longrightarrow> size c \<le> size_list size xs"
    by (simp add: size_list_estimation')
  have optl: "\<And>x. c \<in> set (optionalList x) \<Longrightarrow> size c \<le> size_option (size_list size) x"
    by (case_tac x) (auto dest: lst)
  from c show "size c < size n"
    by (cases n) (auto dest!: opt optl, auto dest!: lst)
qed

lemma occurrences_smaller: "size n < size m \<Longrightarrow> occurrences m n = 0"
proof (induction m n rule: occurrences.induct)
  case (1 m n)
  have "\<And>c. c \<in> set (children n) \<Longrightarrow> occurrences m c = 0"
    using 1 children_size by (metis less_trans)
  moreover have "n \<noteq> m" using 1(2) by auto
  ultimately show ?case
    by (subst occurrences.simps) simp
qed

lemma occurrences_self: "occurrences m m = 1"
proof -
  have "\<And>c. c \<in> set (children m) \<Longrightarrow> occurrences m c = 0"
    by (simp add: children_size occurrences_smaller)
  then show ?thesis
    by (subst occurrences.simps) simp
qed

lemma occurrences_node:
  "occurrences m (Identifier i) = (if Identifier i = m then 1 else 0)"
  "occurrences m (StringLiteral t) = (if StringLiteral t = m then 1 else 0)"
  "occurrences m EqualsGreaterThanToken = (if EqualsGreaterThanToken = m then 1 else 0)"
  "occurrences m (PropertyAccessExpression e n)
     = (if PropertyAccessExpression e n = m then 1 else 0) + occurrences m e"
  "occurrences m (CallExpression a e ta args)
     = (if CallExpression a e ta args = m then 1 else 0) + occurrences m e
       + sum_list (map (occurrences m) (optionalList ta)) + sum_list (map (occurrences m) args)"
  "occurrences m (ParenthesizedExpression e)
     = (if ParenthesizedExpression e = m then 1 else 0) + occurrences m e"
  "occurrences m (ArrowFunction ms tps ps ty tok b)
     = (if ArrowFunction ms tps ps ty tok b = m then 1 else 0)
       + sum_list (map (occurrences m) (optionalList ms))
       + sum_list (map (occurrences m) (optionalList tps))
       + sum_list (map (occurrences m) ps)
       + sum_list (map (occurrences m) (optional ty))
       + occurrences m tok + occurrences m b"
  "occurrences m (Block ss ml)
     = (if Block ss ml = m then 1 else 0) + sum_list (map (occurrences m) ss)"
  "occurrences m (ExpressionStatement e)
     = (if ExpressionStatement e = m then 1 else 0) + occurrences m e"
  "occurrences m (VariableDeclaration nm ex ty init)
     = (if VariableDeclaration nm ex ty init = m then 1 else 0) + occurrences m nm
       + sum_list (map (occurrences m) (optional ex))
       + sum_list (map (occurrences m) (optional ty))
       + sum_list (map (occurrences m) (optional init))"
  "occurrences m (VariableDeclarationList ds fl)
     = (if VariableDeclarationList ds fl = m then 1 else 0) + sum_list (map (occurrences m) ds)"
  "occurrences m (VariableStatement ms dl)
     = (if VariableStatement ms dl = m then 1 else 0)
       + sum_list (map (occurrences m) (optionalList ms)) + occurrences m dl"
  "occurrences m (ReturnStatement r)
     = (if ReturnStatement r = m then 1 else 0) + sum_list (map (occurrences m) (optional r))"
  "occurrences m (OtherNode k ns)
     = (if OtherNode k ns = m then 1 else 0) + sum_list (map (occurrences m) ns)"
  by (subst occurrences.simps, simp)+

lemma sum_list_zero: "(\<forall>x \<in> set xs. f x = (0::nat)) \<Longrightarrow> sum_list (map f xs) = 0"
  by (induction xs) auto

lemma instrumentCall_size:
  assumes "\<not> (isInstrumented s (getFunctionName h (CallExpression a e ta args)) = Some True
              \<and> a \<in> instrumentedSymbol s)"
  shows "size (CallExpression a e ta args)
           < size (fst (instrumentCall h (CallExpression a e ta args) s))"
  using assms by (simp add: instrumentCall_wrap Let_def)

lemma instrumentCall_wrappedCall:
  assumes "\<not> (isInstrumented s (getFunctionName h (CallExpression a e ta args)) = Some True
              \<and> a \<in> instrumentedSymbol s)"
  shows "wrappedCall (fst (instrumentCall h (CallExpression a e ta args) s))
           = Some (CallExpression a e ta args)"
  using assms
  by (simp add: instrumentCall_wrap Let_def wrappedCall_def iifeStatements_def constBinding_def)

text \<open>
  Claim C1. When \<^verbatim>\<open>_instrumentCall\<close> does not skip a call, what it returns is an arrow
  function without parameters, invoked on the spot, whose block holds in this order: the
  \<^verbatim>\<open>begin call\<close> trace, with the name of the call in which every dot is an underscore; the
  registration of the call site; the increment of the call count; the start of the
  timing; the constant that binds the call node to a name just generated by the factory;
  the statements that end the timing; the \<^verbatim>\<open>end call\<close> trace; the return of the bound
  name. The three generated names are different names and the factory's counter has moved
  past them. The call node occurs once in the replacement, given that its object is older
  than the call nodes the factory makes here and that the statements of the host do not
  contain it.
\<close>

theorem instrumentCall_replacement:
  assumes "\<not> (isInstrumented s (getFunctionName h (CallExpression a e ta args)) = Some True
              \<and> a \<in> instrumentedSymbol s)"
  shows
    "let node = CallExpression a e ta args;
         name = getFunctionName h node;
         formatted = map (\<lambda>c. if c = CHR ''.'' then CHR ''_'' else c) name;
         replacement = fst (instrumentCall h node s);
         resultVar = Ident ''result'' (Some (nextAutoGenerateId s));
         startVar = Ident (''__call_start_'' @ formatted) (Some (nextAutoGenerateId s + 1));
         endVar = Ident (''__call_end_'' @ formatted) (Some (nextAutoGenerateId s + 2));
         consoleLog =
           PropertyAccessExpression (Identifier (Ident ''console'' None)) (Ident ''log'' None)
     in iifeStatements replacement =
          Some ([ExpressionStatement
                   (CallExpression (nextAddress s) consoleLog None
                      [StringLiteral (''[PREF] begin call '' @ formatted)]),
                 createFunctionData h name,
                 createIncrementCallCount h name,
                 createBeginFunctionLog h startVar,
                 VariableStatement None
                   (VariableDeclarationList
                      [VariableDeclaration (Identifier resultVar) None None (Some node)]
                      NodeFlagsConst)]
                @ createEndFunctionLog h name startVar endVar
                @ [ExpressionStatement
                     (CallExpression (nextAddress s + 1) consoleLog None
                        [StringLiteral (''[PREF] end call '' @ formatted)]),
                   ReturnStatement (Some (Identifier resultVar))])
        \<and> distinct [resultVar, startVar, endVar]
        \<and> nextAutoGenerateId (snd (instrumentCall h node s)) = nextAutoGenerateId s + 3
        \<and> (a < nextAddress s
            \<and> occurrences node (createFunctionData h name) = 0
            \<and> occurrences node (createIncrementCallCount h name) = 0
            \<and> occurrences node (createBeginFunctionLog h startVar) = 0
            \<and> (\<forall>st \<in> set (createEndFunctionLog h name startVar endVar).
                  occurrences node st = 0)
            \<longrightarrow> occurrences node replacement = 1)"
  using assms
  by (simp add: instrumentCall_wrap Let_def iifeStatements_def replaceDots_def
      occurrences_node occurrences_self sum_list_zero)


theorem instrumentCall_replacement_witness:
  "iifeStatements (fst (instrumentCall exampleHost
      (CallExpression 1
         (PropertyAccessExpression (Identifier (Ident ''obj'' None)) (Ident ''run'' None))
         None [StringLiteral ''1'']) initialState))
   = Some
      [ExpressionStatement
         (CallExpression 100
            (PropertyAccessExpression (Identifier (Ident ''console'' None)) (Ident ''log'' None))
            None [StringLiteral ''[PREF] begin call obj_run'']),
       OtherNode ''functionData'' [StringLiteral ''obj.run''],
       OtherNode ''incrementCallCount'' [StringLiteral ''obj.run''],
       OtherNode ''beginFunctionLog'' [Identifier (Ident ''__call_start_obj_run'' (Some 1))],
       VariableStatement None
         (VariableDeclarationList
            [VariableDeclaration (Identifier (Ident ''result'' (Some 0))) None None
               (Some (CallExpression 1
                  (PropertyAccessExpression (Identifier (Ident ''obj'' None)) (Ident ''run'' None))
                  None [StringLiteral ''1'']))]
            NodeFlagsConst),
       OtherNode ''endFunctionLog''
         [StringLiteral ''obj.run'', Identifier (Ident ''__call_start_obj_run'' (Some 1)),
          Identifier (Ident ''__call_end_obj_run'' (Some 2))],
       ExpressionStatement
         (CallExpression 101
            (PropertyAccessExpression (Identifier (Ident ''console'' None)) (Ident ''log'' None))
            None [StringLiteral ''[PREF] end call obj_run'']),
       ReturnStatement (Some (Identifier (Ident ''result'' (Some 0))))]
   \<and> occurrences
        (CallExpression 1
           (PropertyAccessExpression (Identifier (Ident ''obj'' None)) (Ident ''run'' None))
           None [StringLiteral ''1''])
        (fst (instrumentCall exampleHost
           (CallExpression 1
              (PropertyAccessExpression (Identifier (Ident ''obj'' None)) (Ident ''run'' None))
              None [StringLiteral ''1'']) initialState)) = 1"
  using instrumentCall_replacement
    [of initialState exampleHost 1
        "PropertyAccessExpression (Identifier (Ident ''obj'' None)) (Ident ''run'' None)"
        None "[StringLiteral ''1'']"]
  by (simp add: Let_def initialState_def expression_PropertyAccess expression_Identifier
      occurrences_node)

lemma instrumentCall_state:
  assumes "\<not> (isInstrumented s (getFunctionName h (CallExpression a e ta args)) = Some True
              \<and> a \<in> instrumentedSymbol s)"
  shows "isInstrumented (snd (instrumentCall h (CallExpression a e ta args) s))
           = (isInstrumented s)(getFunctionName h (CallExpression a e ta args) \<mapsto> True)"
    and "instrumentedSymbol (snd (instrumentCall h (CallExpression a e ta args) s))
           = insert a (instrumentedSymbol s)"
  using assms by (simp_all add: instrumentCall_wrap Let_def)

text \<open>
  Claim C2. \<^verbatim>\<open>_instrumentCall\<close> returns the node it was given exactly when the flag of the
  name is set in \<^verbatim>\<open>isInstrumented\<close> and the node carries the marker; then the state is
  left as it was. A node whose name is flagged but which carries no marker is wrapped all
  the same: the replacement evaluates it, and afterwards the node carries the marker.
\<close>

theorem instrumentCall_skips_iff:
  "let node = CallExpression a e ta args;
       name = getFunctionName h node;
       flagged = (isInstrumented s name = Some True);
       marked = (a \<in> instrumentedSymbol s);
       returned = fst (instrumentCall h node s);
       s' = snd (instrumentCall h node s)
   in (returned = node) = (flagged \<and> marked)
      \<and> (flagged \<and> marked \<longrightarrow> s' = s)
      \<and> (flagged \<and> \<not> marked \<longrightarrow>
           wrappedCall returned = Some node \<and> a \<in> instrumentedSymbol s'
           \<and> isInstrumented s' name = Some True)"
proof (cases "isInstrumented s (getFunctionName h (CallExpression a e ta args)) = Some True
              \<and> a \<in> instrumentedSymbol s")
  case True
  then show ?thesis
    by (simp add: instrumentCall_skip Let_def)
next
  case False
  from False have "size (CallExpression a e ta args)
           < size (fst (instrumentCall h (CallExpression a e ta args) s))"
    by (rule instrumentCall_size)
  then have "fst (instrumentCall h (CallExpression a e ta args) s) \<noteq> CallExpression a e ta args"
    by auto
  with False show ?thesis
    by (auto simp add: Let_def instrumentCall_wrappedCall instrumentCall_state)
qed

theorem instrumentCall_skips_iff_witness:
  "instrumentCall exampleHost
      (CallExpression 1 (Identifier (Ident ''add'' None)) None [StringLiteral ''1''])
      \<lparr>isInstrumented = [''add'' \<mapsto> True], instrumentedSymbol = {1},
       nextAutoGenerateId = 3, nextAddress = 103\<rparr>
     = (CallExpression 1 (Identifier (Ident ''add'' None)) None [StringLiteral ''1''],
        \<lparr>isInstrumented = [''add'' \<mapsto> True], instrumentedSymbol = {1},
         nextAutoGenerateId = 3, nextAddress = 103\<rparr>)
   \<and> wrappedCall (fst (instrumentCall exampleHost
      (CallExpression 2 (Identifier (Ident ''add'' None)) None [StringLiteral ''2''])
      \<lparr>isInstrumented = [''add'' \<mapsto> True], instrumentedSymbol = {1},
       nextAutoGenerateId = 3, nextAddress = 103\<rparr>))
     = Some (CallExpression 2 (Identifier (Ident ''add'' None)) None [StringLiteral ''2''])
   \<and> 2 \<in> instrumentedSymbol (snd (instrumentCall exampleHost
      (CallExpression 2 (Identifier (Ident ''add'' None)) None [StringLiteral ''2''])
      \<lparr>isInstrumented = [''add'' \<mapsto> True], instrumentedSymbol = {1},
       nextAutoGenerateId = 3, nextAddress = 103\<rparr>))"
  using
    instrumentCall_skips_iff
      [of 1 "Identifier (Ident ''add'' None)" None "[StringLiteral ''1'']" exampleHost
          "\<lparr>isInstrumented = [''add'' \<mapsto> True], instrumentedSymbol = {1},
            nextAutoGenerateId = 3, nextAddress = 103\<rparr>"]
    instrumentCall_skips_iff
      [of 2 "Identifier (Ident ''add'' None)" None "[StringLiteral ''2'']" exampleHost
          "\<lparr>isInstrumented = [''add'' \<mapsto> True], instrumentedSymbol = {1},
            nextAutoGenerateId = 3, nextAddress = 103\<rparr>"]
  by (simp add: Let_def expression_Identifier prod_eq_iff)

lemma instrumentLoop_state:
  "isInstrumented (snd (instrumentLoop h x s)) = isInstrumented s
   \<and> instrumentedSymbol (snd (instrumentLoop h x s)) = instrumentedSymbol s"
  by (cases x)
     (simp_all add: instrumentLoop_def getNodeUniqueName_def createUniqueName_def)

lemma instrumentFunction_keeps:
  "(isInstrumented s n = Some True \<longrightarrow>
      isInstrumented (snd (instrumentFunction h x s)) n = Some True)
   \<and> instrumentedSymbol s \<subseteq> instrumentedSymbol (snd (instrumentFunction h x s))"
proof (cases x)
  case (CallExpression a e ta args)
  show ?thesis
  proof (cases "shouldInstrumentCall h x")
    case False
    then show ?thesis
      by (simp add: CallExpression instrumentFunction_excluded)
  next
    case should: True
    show ?thesis
    proof (cases "isInstrumented s (getFunctionName h x) = Some True \<and> a \<in> instrumentedSymbol s")
      case True
      then show ?thesis
        using should by (simp add: CallExpression instrumentFunction_call instrumentCall_skip)
    next
      case False
      then show ?thesis
        using should
        by (auto simp add: CallExpression instrumentFunction_call instrumentCall_state)
    qed
  qed
qed (simp_all add: instrumentFunction_def instrumentLoop_state split_def)

lemma visitAll_keeps:
  "isInstrumented s n = Some True \<Longrightarrow> a \<in> instrumentedSymbol s \<Longrightarrow>
   isInstrumented (visitAll h ns s) n = Some True \<and> a \<in> instrumentedSymbol (visitAll h ns s)"
proof (induction ns arbitrary: s)
  case Nil
  then show ?case by (simp add: visitAll_def)
next
  case (Cons x ns)
  have "isInstrumented (snd (instrumentFunction h x s)) n = Some True"
    and "a \<in> instrumentedSymbol (snd (instrumentFunction h x s))"
    using Cons.prems instrumentFunction_keeps [of s n h x] by auto
  then have "isInstrumented (visitAll h ns (snd (instrumentFunction h x s))) n = Some True
     \<and> a \<in> instrumentedSymbol (visitAll h ns (snd (instrumentFunction h x s)))"
    by (rule Cons.IH)
  then show ?case by (simp add: visitAll_def)
qed

text \<open>
  Claim C9. When \<^verbatim>\<open>_instrumentCall\<close> wraps a call, the state it leaves has the flag of the
  name and the marker of the node set, and the replacement evaluates that very node. So
  the node is returned unchanged, and the state with it, when it is handed over again:
  at once, or after any list of other nodes has gone through the entry point, and through
  the entry point as well as through \<^verbatim>\<open>_instrumentCall\<close>. No traversal wraps it twice.
\<close>

theorem instrumentCall_wraps_once:
  assumes "\<not> (isInstrumented s (getFunctionName h (CallExpression a e ta args)) = Some True
              \<and> a \<in> instrumentedSymbol s)"
  shows
    "let node = CallExpression a e ta args;
         name = getFunctionName h node;
         replacement = fst (instrumentCall h node s);
         s' = snd (instrumentCall h node s)
     in isInstrumented s' name = Some True
        \<and> a \<in> instrumentedSymbol s'
        \<and> wrappedCall replacement = Some node
        \<and> instrumentCall h node s' = (node, s')
        \<and> (\<forall>ns. instrumentCall h node (visitAll h ns s') = (node, visitAll h ns s')
                \<and> instrumentFunction h node (visitAll h ns s') = (node, visitAll h ns s'))"
proof -
  let ?node = "CallExpression a e ta args"
  let ?s' = "snd (instrumentCall h ?node s)"
  have flag: "isInstrumented ?s' (getFunctionName h ?node) = Some True"
    and mark: "a \<in> instrumentedSymbol ?s'"
    using assms by (simp_all add: instrumentCall_state)
  have wrapped: "wrappedCall (fst (instrumentCall h ?node s)) = Some ?node"
    using assms by (rule instrumentCall_wrappedCall)
  have later: "instrumentCall h ?node (visitAll h ns ?s') = (?node, visitAll h ns ?s')
      \<and> instrumentFunction h ?node (visitAll h ns ?s') = (?node, visitAll h ns ?s')" for ns
  proof -
    have keeps: "isInstrumented (visitAll h ns ?s') (getFunctionName h ?node) = Some True
       \<and> a \<in> instrumentedSymbol (visitAll h ns ?s')"
      using flag mark by (rule visitAll_keeps)
    then have skip: "instrumentCall h ?node (visitAll h ns ?s') = (?node, visitAll h ns ?s')"
      by (simp add: instrumentCall_skip)
    show ?thesis
    proof (cases "shouldInstrumentCall h ?node")
      case True
      then show ?thesis using skip by (simp add: instrumentFunction_call)
    next
      case False
      then show ?thesis using skip by (simp add: instrumentFunction_excluded)
    qed
  qed
  have "instrumentCall h ?node ?s' = (?node, ?s')"
    using flag mark by (simp add: instrumentCall_skip)
  with flag mark wrapped later show ?thesis
    by (simp add: Let_def)
qed


theorem instrumentCall_wraps_once_witness:
  "wrappedCall (fst (instrumentCall exampleHost
      (CallExpression 1 (Identifier (Ident ''add'' None)) None [StringLiteral ''1''])
      initialState))
     = Some (CallExpression 1 (Identifier (Ident ''add'' None)) None [StringLiteral ''1''])
   \<and> fst (instrumentFunction exampleHost
      (CallExpression 1 (Identifier (Ident ''add'' None)) None [StringLiteral ''1''])
      (visitAll exampleHost
         [CallExpression 2 (Identifier (Ident ''add'' None)) None [StringLiteral ''2''],
          WhileStatement (Identifier (Ident ''b'' None)) (Block [] True)]
         (snd (instrumentCall exampleHost
            (CallExpression 1 (Identifier (Ident ''add'' None)) None [StringLiteral ''1''])
            initialState))))
     = CallExpression 1 (Identifier (Ident ''add'' None)) None [StringLiteral ''1'']"
  using instrumentCall_wraps_once
    [of initialState exampleHost 1 "Identifier (Ident ''add'' None)" None
        "[StringLiteral ''1'']"]
  by (simp add: Let_def initialState_def expression_Identifier)

text \<open>
  Claim C4. \<^verbatim>\<open>shouldInstrumentCall\<close> is false exactly when the name of the call is an
  excluded name or begins with an excluded name and a dot. A call named
  \<^verbatim>\<open>console.log\<close> is refused and comes back from the entry point as it went in, and the
  state with it. A call named \<^verbatim>\<open>someLogger.log\<close> is accepted, the entry point hands it to
  the wrapper, and unless the flag of the name and the marker of the node are both set
  what comes back is a replacement that evaluates the call, and the node is marked.
\<close>

theorem shouldInstrumentCall_exclusion:
  "shouldInstrumentCall h node
     = (\<not> (\<exists>excluded \<in> set EXCLUDED_FUNCTIONS.
              getFunctionName h node = excluded
              \<or> prefix (excluded @ ''.'') (getFunctionName h node)))
   \<and> (isCallExpression node \<and> getFunctionName h node = ''console.log'' \<longrightarrow>
        \<not> shouldInstrumentCall h node \<and> instrumentFunction h node s = (node, s))
   \<and> (getFunctionName h (CallExpression a e ta args) = ''someLogger.log'' \<longrightarrow>
        shouldInstrumentCall h (CallExpression a e ta args)
        \<and> instrumentFunction h (CallExpression a e ta args) s
            = instrumentCall h (CallExpression a e ta args) s
        \<and> (\<not> (isInstrumented s ''someLogger.log'' = Some True \<and> a \<in> instrumentedSymbol s) \<longrightarrow>
             wrappedCall (fst (instrumentFunction h (CallExpression a e ta args) s))
               = Some (CallExpression a e ta args)
             \<and> fst (instrumentFunction h (CallExpression a e ta args) s)
                 \<noteq> CallExpression a e ta args
             \<and> a \<in> instrumentedSymbol (snd (instrumentFunction h (CallExpression a e ta args) s))))"
proof (intro conjI impI)
  show "shouldInstrumentCall h node
     = (\<not> (\<exists>excluded \<in> set EXCLUDED_FUNCTIONS.
              getFunctionName h node = excluded
              \<or> prefix (excluded @ ''.'') (getFunctionName h node)))"
    by (simp only: shouldInstrumentCall_def notExcluded_iff)
next
  assume c: "isCallExpression node \<and> getFunctionName h node = ''console.log''"
  then show no: "\<not> shouldInstrumentCall h node"
    by (simp add: shouldInstrumentCall_def EXCLUDED_FUNCTIONS_def)
  from c no show "instrumentFunction h node s = (node, s)"
    by (cases node) (simp_all add: instrumentFunction_def)
next
  let ?node = "CallExpression a e ta args"
  assume name: "getFunctionName h ?node = ''someLogger.log''"
  then show yes: "shouldInstrumentCall h ?node"
    by (simp add: shouldInstrumentCall_def EXCLUDED_FUNCTIONS_def)
  then show entry: "instrumentFunction h ?node s = instrumentCall h ?node s"
    by (rule instrumentFunction_call)
  assume "\<not> (isInstrumented s ''someLogger.log'' = Some True \<and> a \<in> instrumentedSymbol s)"
  with name have wrap:
    "\<not> (isInstrumented s (getFunctionName h ?node) = Some True \<and> a \<in> instrumentedSymbol s)"
    by simp
  from wrap show "wrappedCall (fst (instrumentFunction h ?node s)) = Some ?node"
    unfolding entry by (rule instrumentCall_wrappedCall)
  from wrap have "size ?node < size (fst (instrumentCall h ?node s))"
    by (rule instrumentCall_size)
  then show "fst (instrumentFunction h ?node s) \<noteq> ?node"
    unfolding entry by auto
  from wrap show "a \<in> instrumentedSymbol (snd (instrumentFunction h ?node s))"
    unfolding entry by (simp add: instrumentCall_state)
qed

theorem shouldInstrumentCall_exclusion_witness:
  "instrumentFunction exampleHost
      (CallExpression 3
         (PropertyAccessExpression (Identifier (Ident ''console'' None)) (Ident ''log'' None))
         None [StringLiteral ''hello'']) initialState
     = (CallExpression 3
         (PropertyAccessExpression (Identifier (Ident ''console'' None)) (Ident ''log'' None))
         None [StringLiteral ''hello''], initialState)
   \<and> shouldInstrumentCall exampleHost
      (CallExpression 6
         (PropertyAccessExpression (Identifier (Ident ''someLogger'' None)) (Ident ''log'' None))
         None [StringLiteral ''hello''])
   \<and> wrappedCall (fst (instrumentFunction exampleHost
      (CallExpression 6
         (PropertyAccessExpression (Identifier (Ident ''someLogger'' None)) (Ident ''log'' None))
         None [StringLiteral ''hello'']) initialState))
     = Some (CallExpression 6
         (PropertyAccessExpression (Identifier (Ident ''someLogger'' None)) (Ident ''log'' None))
         None [StringLiteral ''hello''])
   \<and> 6 \<in> instrumentedSymbol (snd (instrumentFunction exampleHost
      (CallExpression 6
         (PropertyAccessExpression (Identifier (Ident ''someLogger'' None)) (Ident ''log'' None))
         None [StringLiteral ''hello'']) initialState))"
  using
    shouldInstrumentCall_exclusion
      [of exampleHost
          "CallExpression 3
             (PropertyAccessExpression (Identifier (Ident ''console'' None)) (Ident ''log'' None))
             None [StringLiteral ''hello'']"
          initialState 3
          "PropertyAccessExpression (Identifier (Ident ''console'' None)) (Ident ''log'' None)"
          None "[StringLiteral ''hello'']"]
    shouldInstrumentCall_exclusion
      [of exampleHost
          "CallExpression 6
             (PropertyAccessExpression (Identifier (Ident ''someLogger'' None)) (Ident ''log'' None))
             None [StringLiteral ''hello'']"
          initialState 6
          "PropertyAccessExpression (Identifier (Ident ''someLogger'' None)) (Ident ''log'' None)"
          None "[StringLiteral ''hello'']"]
  by (auto simp add: expression_PropertyAccess expression_Identifier EXCLUDED_FUNCTIONS_def)

end
